theory Spec2Isabelle
  imports Main
begin

section \<open>Errors and Python values\<close>

text \<open>
  Every exception the modelled code can raise is a value of \<open>error\<close>; a function that can
  raise returns \<open>error + 'a\<close> with \<open>Inl\<close> for the exception.  \<open>UnboundedDrilldown\<close> is the
  error of the cardinality guard, which lives outside the files modelled here.
\<close>

datatype error =
    ArgumentError
  | NotImplementedError
  | UnboundLocalError
  | AttributeError
  | ValueError
  | KeyError
  | IndexError
  | ModelError
  | UnboundedDrilldown

definition bind_err :: "error + 'a \<Rightarrow> ('a \<Rightarrow> error + 'b) \<Rightarrow> error + 'b" where
  "bind_err m f = (case m of Inl e \<Rightarrow> Inl e | Inr x \<Rightarrow> f x)"

text \<open>
  A local variable that is annotated but not yet assigned is \<open>None\<close>; reading it raises
  \<open>UnboundLocalError\<close>.
\<close>

definition read_local :: "'a option \<Rightarrow> error + 'a" where
  "read_local v = (case v of None \<Rightarrow> Inl UnboundLocalError | Some x \<Rightarrow> Inr x)"

section \<open>Path codec (cubes/query/cells.py)\<close>

text \<open>
  A path element is a Python \<open>str\<close> or \<open>None\<close>; a hierarchy path is a list of them.
\<close>

type_synonym path_part = "string option"
type_synonym hierarchy_path = "path_part list"

definition BACKSLASH :: char where
  "BACKSLASH = CHR 0x5C"

definition NULL_PATH_VALUE :: string where
  "NULL_PATH_VALUE = ''__null__''"

definition CUT_STRING_SEPARATOR_CHAR :: char where
  "CUT_STRING_SEPARATOR_CHAR = CHR ''|''"

definition DIMENSION_STRING_SEPARATOR_CHAR :: char where
  "DIMENSION_STRING_SEPARATOR_CHAR = CHR '':''"

definition PATH_STRING_SEPARATOR_CHAR :: char where
  "PATH_STRING_SEPARATOR_CHAR = CHR '',''"

definition RANGE_CUT_SEPARATOR_CHAR :: char where
  "RANGE_CUT_SEPARATOR_CHAR = CHR ''-''"

definition SET_CUT_SEPARATOR_CHAR :: char where
  "SET_CUT_SEPARATOR_CHAR = CHR '';''"

text \<open>The character class \<^verbatim>\<open>[\\!|:;,-]\<close> of both escape patterns.\<close>

definition escape_class :: "char \<Rightarrow> bool" where
  "escape_class c \<longleftrightarrow>
     c = BACKSLASH \<or> c = CHR ''!'' \<or> c = CHR ''|'' \<or> c = CHR '':'' \<or>
     c = CHR '';'' \<or> c = CHR '','' \<or> c = CHR ''-''"

text \<open>
  \<^verbatim>\<open>PATH_PART_ESCAPE_PATTERN.sub(r"\\\1", s)\<close>: every character of the class gets a
  backslash in front.
\<close>

fun escape_sub :: "string \<Rightarrow> string" where
  "escape_sub [] = []"
| "escape_sub (c # cs) =
     (if escape_class c then BACKSLASH # c # escape_sub cs else c # escape_sub cs)"

text \<open>
  \<^verbatim>\<open>PATH_PART_UNESCAPE_PATTERN.sub(r"\1", s)\<close>: scanning from the left, a backslash
  followed by a character of the class is replaced by that character; matches do not
  overlap.
\<close>

fun unescape_sub :: "string \<Rightarrow> string" where
  "unescape_sub [] = []"
| "unescape_sub [c] = [c]"
| "unescape_sub (c # d # cs) =
     (if c = BACKSLASH \<and> escape_class d then d # unescape_sub cs
      else c # unescape_sub (d # cs))"

definition path_part_escape :: "path_part \<Rightarrow> string" where
  "path_part_escape path_part =
     (case path_part of None \<Rightarrow> NULL_PATH_VALUE | Some s \<Rightarrow> escape_sub s)"

definition path_part_unescape :: "string \<Rightarrow> path_part" where
  "path_part_unescape path_part =
     (if path_part = NULL_PATH_VALUE then None else Some (unescape_sub path_part))"

text \<open>\<^verbatim>\<open>str(s)\<close> of a path element: \<open>None\<close> prints as the four letters \<open>None\<close>.\<close>

definition py_str :: "path_part \<Rightarrow> string" where
  "py_str s = (case s of None \<Rightarrow> ''None'' | Some t \<Rightarrow> t)"

text \<open>\<^verbatim>\<open>sep.join(strings)\<close>.\<close>

fun join :: "char \<Rightarrow> string list \<Rightarrow> string" where
  "join sep [] = []"
| "join sep [s] = s"
| "join sep (s # t # ss) = s @ sep # join sep (t # ss)"

text \<open>
  \<^verbatim>\<open>re.compile(r'(?<!\\)SEP').split(s)\<close>: the string is cut at every \<open>sep\<close> that is not
  directly preceded by a backslash.  The flag says whether the character before the
  current position is a backslash; it is \<open>False\<close> at the start of the string.
\<close>

fun re_split_from :: "char \<Rightarrow> bool \<Rightarrow> string \<Rightarrow> string list" where
  "re_split_from sep after_bs [] = [[]]"
| "re_split_from sep after_bs (c # cs) =
     (if c = sep \<and> \<not> after_bs then [] # re_split_from sep False cs
      else (let r = re_split_from sep (c = BACKSLASH) cs in (c # hd r) # tl r))"

definition re_split :: "char \<Rightarrow> string \<Rightarrow> string list" where
  "re_split sep s = re_split_from sep False s"

text \<open>
  \<open>string_from_path\<close>: the warning it logs when an escaped element does not match
  \<open>RE_ELEMENT\<close> changes no result and is left out.
\<close>

definition string_from_path :: "hierarchy_path \<Rightarrow> string" where
  "string_from_path path =
     (if path = [] then []
      else join PATH_STRING_SEPARATOR_CHAR
             (map (\<lambda>s. path_part_escape (Some (py_str s))) path))"

definition path_from_string :: "string \<Rightarrow> hierarchy_path" where
  "path_from_string string =
     (if string = [] then []
      else map path_part_unescape (re_split PATH_STRING_SEPARATOR_CHAR string))"

definition string_from_hierarchy :: "string \<Rightarrow> string option \<Rightarrow> string" where
  "string_from_hierarchy dimension hierarchy =
     (case hierarchy of
        None \<Rightarrow> path_part_escape (Some dimension)
      | Some h \<Rightarrow>
          (if h = [] then path_part_escape (Some dimension)
           else path_part_escape (Some dimension) @ CHR ''@'' # path_part_escape (Some h)))"

section \<open>Cuts (cubes/query/cells.py)\<close>

text \<open>
  The three cut classes, with the fields in the order of their constructors.  The type
  of the dimension is left open: \<open>Cut\<close> annotates it as \<open>str\<close> and the codec escapes it as a
  string, while \<open>rollup\<close>, \<open>rollup_dim\<close> and \<open>deepest_levels\<close> call its method
  \<open>hierarchy\<close>.  \<open>from_path\<close> and \<open>to_path\<close> may be \<open>None\<close>.
\<close>

datatype 'd cut =
    PointCut (dimension: 'd) (path: hierarchy_path) (hierarchy: "string option")
      (invert: bool) (hidden: bool)
  | RangeCut (dimension: 'd) (from_path: "hierarchy_path option")
      (to_path: "hierarchy_path option") (hierarchy: "string option")
      (invert: bool) (hidden: bool)
  | SetCut (dimension: 'd) (paths: "hierarchy_path list") (hierarchy: "string option")
      (invert: bool) (hidden: bool)

fun isinstance_PointCut :: "'d cut \<Rightarrow> bool" where
  "isinstance_PointCut (PointCut d p h i hid) = True"
| "isinstance_PointCut c = False"

text \<open>Reading the attribute \<open>path\<close>: only a \<open>PointCut\<close> has it.\<close>

fun get_path :: "'d cut \<Rightarrow> error + hierarchy_path" where
  "get_path (PointCut d p h i hid) = Inr p"
| "get_path c = Inl AttributeError"

text \<open>An optional path as the list it is tested as: \<open>None\<close> and \<open>[]\<close> are both false.\<close>

definition opt_path :: "hierarchy_path option \<Rightarrow> hierarchy_path" where
  "opt_path p = (case p of None \<Rightarrow> [] | Some q \<Rightarrow> q)"

text \<open>
  \<open>level_depth\<close>: a range cut with neither end falls off the end of the method and
  returns \<open>None\<close>; \<open>max\<close> of the empty list of a set cut without paths raises.
\<close>

fun level_depth :: "'d cut \<Rightarrow> error + nat option" where
  "level_depth (PointCut d p h i hid) = Inr (Some (length p))"
| "level_depth (RangeCut d f t h i hid) =
     (if opt_path f \<noteq> [] \<and> opt_path t = [] then Inr (Some (length (opt_path f)))
      else if opt_path f = [] \<and> opt_path t \<noteq> [] then Inr (Some (length (opt_path t)))
      else if opt_path f \<noteq> [] \<and> opt_path t \<noteq> []
        then Inr (Some (max (length (opt_path f)) (length (opt_path t))))
      else Inr None)"
| "level_depth (SetCut d ps h i hid) =
     (if ps = [] then Inl ValueError else Inr (Some (foldr max (map length ps) 0)))"

text \<open>\<open>__str__\<close> of the three classes.\<close>

definition invert_prefix :: "bool \<Rightarrow> string" where
  "invert_prefix i = (if i then ''!'' else [])"

fun cut_str :: "string cut \<Rightarrow> string" where
  "cut_str (PointCut d p h i hid) =
     invert_prefix i @ string_from_hierarchy d h
       @ DIMENSION_STRING_SEPARATOR_CHAR # string_from_path p"
| "cut_str (RangeCut d f t h i hid) =
     (let from_path_str =
            (if opt_path f \<noteq> [] then string_from_path (opt_path f) else string_from_path []);
          to_path_str =
            (if opt_path t \<noteq> [] then string_from_path (opt_path t) else string_from_path []);
          range_str = from_path_str @ RANGE_CUT_SEPARATOR_CHAR # to_path_str
      in invert_prefix i @ string_from_hierarchy d h
           @ DIMENSION_STRING_SEPARATOR_CHAR # range_str)"
| "cut_str (SetCut d ps h i hid) =
     invert_prefix i @ string_from_hierarchy d h
       @ DIMENSION_STRING_SEPARATOR_CHAR # join SET_CUT_SEPARATOR_CHAR (map string_from_path ps)"

text \<open>
  \<open>__eq__\<close> of the three classes: same class, same dimension, same path data, same
  \<open>invert\<close>; \<open>hierarchy\<close> and \<open>hidden\<close> are not compared.
\<close>

fun cut_eq :: "'d cut \<Rightarrow> 'd cut \<Rightarrow> bool" where
  "cut_eq (PointCut d p h i hid) (PointCut d' p' h' i' hid') = (d = d' \<and> p = p' \<and> i = i')"
| "cut_eq (RangeCut d f t h i hid) (RangeCut d' f' t' h' i' hid') =
     (d = d' \<and> f = f' \<and> t = t' \<and> i = i')"
| "cut_eq (SetCut d ps h i hid) (SetCut d' ps' h' i' hid') = (d = d' \<and> ps = ps' \<and> i = i')"
| "cut_eq c c' = False"

section \<open>Cells (cubes/query/cells.py)\<close>

text \<open>A cell is the list \<open>self.cuts\<close>.\<close>

type_synonym 'd cell = "'d cut list"

text \<open>\<open>xs.index(x)\<close>, with \<open>None\<close> for the \<open>ValueError\<close> that the caller catches.\<close>

fun list_index :: "'a list \<Rightarrow> 'a \<Rightarrow> nat option" where
  "list_index [] x = None"
| "list_index (y # ys) x = (if y = x then Some 0 else map_option Suc (list_index ys x))"

definition dimension_cut_index :: "'d cell \<Rightarrow> 'd \<Rightarrow> nat option" where
  "dimension_cut_index self dim = list_index (map dimension self) dim"

text \<open>
  \<open>Cell.slice\<close> copies the list \<open>self.cuts\<close>, assigns to or appends to the copy, and
  builds a new cell, whose constructor copies the list once more.  To tell a copy from
  an alias, list objects live in a store and are addressed by their position in it; a
  cell object is the address of its list \<open>cuts\<close>.
\<close>

type_synonym 'd store = "'d cut list list"

definition new_list :: "'d store \<Rightarrow> 'd cut list \<Rightarrow> 'd store \<times> nat" where
  "new_list st xs = (st @ [xs], length st)"

text \<open>\<open>Cell(cuts=cuts)\<close>: \<open>self.cuts = list(cuts)\<close>.\<close>

definition Cell_init :: "'d store \<Rightarrow> nat \<Rightarrow> 'd store \<times> nat" where
  "Cell_init st cuts_ref = new_list st (st ! cuts_ref)"

definition slice :: "'d store \<Rightarrow> nat \<Rightarrow> 'd cut \<Rightarrow> 'd store \<times> nat" where
  "slice st self c =
     (let (st1, cuts_ref) = new_list st (st ! self);
          index = dimension_cut_index (st1 ! self) (dimension c);
          st2 = (case index of
                   Some i \<Rightarrow> st1[cuts_ref := (st1 ! cuts_ref)[i := c]]
                 | None \<Rightarrow> st1[cuts_ref := (st1 ! cuts_ref) @ [c]])
      in Cell_init st2 cuts_ref)"

text \<open>
  \<open>point_cut_for_dimension\<close>: the first point cut of the dimension, with its position
  in the list, which stands for the identity of the object.
\<close>

fun point_cut_from :: "nat \<Rightarrow> 'd cut list \<Rightarrow> 'd \<Rightarrow> (nat \<times> 'd cut) option" where
  "point_cut_from n [] dim = None"
| "point_cut_from n (c # cs) dim =
     (if isinstance_PointCut c \<and> dimension c = dim then Some (n, c)
      else point_cut_from (Suc n) cs dim)"

definition point_cut_for_dimension :: "'d cell \<Rightarrow> 'd \<Rightarrow> (nat \<times> 'd cut) option" where
  "point_cut_for_dimension self dim = point_cut_from 0 self dim"

text \<open>
  \<open>[cut for cut in self.cuts if cut is not dim_cut]\<close>: the object found is left out;
  the cuts of a cell are taken to be distinct objects.
\<close>

definition without_index :: "'a list \<Rightarrow> nat \<Rightarrow> 'a list" where
  "without_index xs n = take n xs @ drop (Suc n) xs"

text \<open>
  \<open>rollup_dim\<close>.  The dimension's method \<open>hierarchy\<close> and the hierarchy's method
  \<open>rollup\<close> belong to the dimensional model and are parameters.  \<open>copy.copy(self)\<close> is
  a cell with the same list of cuts.  A cut object is never false.
\<close>

definition rollup_dim ::
  "('d \<Rightarrow> string option \<Rightarrow> error + 'h) \<Rightarrow> ('h \<Rightarrow> hierarchy_path \<Rightarrow> 'l option \<Rightarrow> error + hierarchy_path)
     \<Rightarrow> 'd cell \<Rightarrow> 'd \<Rightarrow> 'l option \<Rightarrow> string option \<Rightarrow> error + 'd cell" where
  "rollup_dim dim_hierarchy hier_rollup self dim level hier_name =
     (case point_cut_for_dimension self dim of
        None \<Rightarrow> Inr self
      | Some (n, dim_cut) \<Rightarrow>
          (let cuts = without_index self n in
           bind_err (dim_hierarchy dim hier_name) (\<lambda>hier.
           bind_err (get_path dim_cut) (\<lambda>p.
           bind_err (hier_rollup hier p level) (\<lambda>rollup_path.
             if rollup_path \<noteq> []
             then Inr (cuts @ [PointCut dim rollup_path hier_name False False])
             else Inr cuts)))))"

text \<open>
  \<open>rollup\<close>.  The dictionary \<open>cuts\<close> keeps, for each dimension, the last cut of the
  cell.
\<close>

definition cuts_get :: "'d cell \<Rightarrow> 'd \<Rightarrow> 'd cut option" where
  "cuts_get self dim = find (\<lambda>c. dimension c = dim) (rev self)"

datatype ('d, 'n) rollup_spec =
    RollupStr 'd
  | RollupList "'d list"
  | RollupDict "('d \<times> 'n) list"
  | RollupOther

fun rollup_list ::
  "('d \<Rightarrow> string option \<Rightarrow> error + 'h) \<Rightarrow> ('h \<Rightarrow> hierarchy_path \<Rightarrow> 'l option \<Rightarrow> error + hierarchy_path)
     \<Rightarrow> 'd cell \<Rightarrow> 'd list \<Rightarrow> 'd cut list \<Rightarrow> error + 'd cut list" where
  "rollup_list dim_hierarchy hier_rollup self [] new_cuts = Inr new_cuts"
| "rollup_list dim_hierarchy hier_rollup self (dim_name # rest) new_cuts =
     (case cuts_get self dim_name of
        None \<Rightarrow> rollup_list dim_hierarchy hier_rollup self rest new_cuts
      | Some c \<Rightarrow>
          (if isinstance_PointCut c then Inl NotImplementedError
           else
             bind_err (dim_hierarchy (dimension c) None) (\<lambda>hier.
             bind_err (get_path c) (\<lambda>p.
             bind_err (hier_rollup hier p None) (\<lambda>rollup_path.
               rollup_list dim_hierarchy hier_rollup self rest
                 (new_cuts @ [PointCut (dimension c) rollup_path None False False]))))))"

fun rollup_items ::
  "('d \<Rightarrow> string option \<Rightarrow> error + 'h) \<Rightarrow> ('h \<Rightarrow> hierarchy_path \<Rightarrow> 'l option \<Rightarrow> error + hierarchy_path)
     \<Rightarrow> ('h \<Rightarrow> 'n \<Rightarrow> error + 'l)
     \<Rightarrow> 'd cell \<Rightarrow> ('d \<times> 'n) list \<Rightarrow> 'd cut list \<Rightarrow> error + 'd cut list" where
  "rollup_items dim_hierarchy hier_rollup hier_level self [] new_cuts = Inr new_cuts"
| "rollup_items dim_hierarchy hier_rollup hier_level self ((dim_name, level_name) # rest) new_cuts =
     (case cuts_get self dim_name of
        None \<Rightarrow> Inl KeyError
      | Some c \<Rightarrow>
          (if \<not> isinstance_PointCut c then Inl NotImplementedError
           else
             bind_err (dim_hierarchy (dimension c) None) (\<lambda>hier.
             bind_err (get_path c) (\<lambda>p.
             bind_err (hier_level hier level_name) (\<lambda>level.
             bind_err (hier_rollup hier p (Some level)) (\<lambda>rollup_path.
               rollup_items dim_hierarchy hier_rollup hier_level self rest
                 (new_cuts @ [PointCut (dimension c) rollup_path None False False])))))))"

text \<open>
  The second branch of \<open>rollup\<close> tests \<^verbatim>\<open>isinstance(self.drilldown, dict)\<close>, and
  \<open>self.drilldown\<close> is the method \<open>Cell.drilldown\<close>, never a dictionary.
\<close>

definition self_drilldown_is_dict :: bool where
  "self_drilldown_is_dict = False"

definition rollup ::
  "('d \<Rightarrow> string option \<Rightarrow> error + 'h) \<Rightarrow> ('h \<Rightarrow> hierarchy_path \<Rightarrow> 'l option \<Rightarrow> error + hierarchy_path)
     \<Rightarrow> ('h \<Rightarrow> 'n \<Rightarrow> error + 'l)
     \<Rightarrow> 'd cell \<Rightarrow> ('d, 'n) rollup_spec \<Rightarrow> error + 'd cell" where
  "rollup dim_hierarchy hier_rollup hier_level self spec =
     (case spec of
        RollupStr dim_name \<Rightarrow> rollup_list dim_hierarchy hier_rollup self [dim_name] []
      | RollupList dim_names \<Rightarrow> rollup_list dim_hierarchy hier_rollup self dim_names []
      | RollupDict items \<Rightarrow>
          (if self_drilldown_is_dict
           then rollup_items dim_hierarchy hier_rollup hier_level self items []
           else Inl ArgumentError)
      | RollupOther \<Rightarrow>
          (if self_drilldown_is_dict then Inl AttributeError else Inl ArgumentError))"

text \<open>
  \<open>deepest_levels\<close>.  The loop variable \<open>item\<close> is assigned in two of the three cases
  of the loop body and appended in all three; it is unbound until its first assignment
  and keeps its value from one round to the next.  \<open>hier.levels\<close> is a parameter.
\<close>

definition truthy_depth :: "nat option \<Rightarrow> bool" where
  "truthy_depth depth = (case depth of None \<Rightarrow> False | Some n \<Rightarrow> n \<noteq> 0)"

definition depth_value :: "nat option \<Rightarrow> nat" where
  "depth_value depth = (case depth of None \<Rightarrow> 0 | Some n \<Rightarrow> n)"

definition list_get :: "'a list \<Rightarrow> nat \<Rightarrow> error + 'a" where
  "list_get xs n = (if n < length xs then Inr (xs ! n) else Inl IndexError)"

fun deepest_levels_loop ::
  "('d \<Rightarrow> string option \<Rightarrow> error + 'h) \<Rightarrow> ('h \<Rightarrow> 'l list) \<Rightarrow> bool
     \<Rightarrow> ('d \<times> 'h \<times> 'l option) option \<Rightarrow> ('d \<times> 'h \<times> 'l option) list \<Rightarrow> 'd cut list
     \<Rightarrow> error + ('d \<times> 'h \<times> 'l option) list" where
  "deepest_levels_loop dim_hierarchy hier_levels include_empty item levels [] = Inr levels"
| "deepest_levels_loop dim_hierarchy hier_levels include_empty item levels (c # rest) =
     bind_err (level_depth c) (\<lambda>depth.
     bind_err (dim_hierarchy (dimension c) (hierarchy c)) (\<lambda>hier.
     bind_err
       (if truthy_depth depth
        then bind_err (list_get (hier_levels hier) (depth_value depth - 1))
               (\<lambda>level. Inr (Some (dimension c, hier, Some level)))
        else if include_empty then Inr (Some (dimension c, hier, None))
        else Inr item) (\<lambda>item'.
     bind_err (read_local item') (\<lambda>it.
       deepest_levels_loop dim_hierarchy hier_levels include_empty item' (levels @ [it]) rest))))"

definition deepest_levels ::
  "('d \<Rightarrow> string option \<Rightarrow> error + 'h) \<Rightarrow> ('h \<Rightarrow> 'l list) \<Rightarrow> 'd cell \<Rightarrow> bool
     \<Rightarrow> error + ('d \<times> 'h \<times> 'l option) list" where
  "deepest_levels dim_hierarchy hier_levels self include_empty =
     deepest_levels_loop dim_hierarchy hier_levels include_empty None [] self"

text \<open>
  \<open>Cell.__eq__\<close>: equal lengths, and every cut of the receiver is \<open>in\<close> the other
  cell's list, that is, equal by \<open>__eq__\<close> to one of its cuts.
\<close>

definition cut_in :: "'d cut \<Rightarrow> 'd cut list \<Rightarrow> bool" where
  "cut_in c cs = list_ex (\<lambda>e. cut_eq e c) cs"

definition cell_eq :: "'d cell \<Rightarrow> 'd cell \<Rightarrow> bool" where
  "cell_eq self other =
     (if length self \<noteq> length other then False
      else list_all (\<lambda>c. cut_in c other) self)"

text \<open>
  What \<open>__eq__\<close> compares of a cut: the cut without its \<open>hierarchy\<close> and \<open>hidden\<close>.  It
  is used to state properties only.
\<close>

fun cut_key :: "'d cut \<Rightarrow> 'd cut" where
  "cut_key (PointCut d p h i hid) = PointCut d p None i False"
| "cut_key (RangeCut d f t h i hid) = RangeCut d f t None i False"
| "cut_key (SetCut d ps h i hid) = SetCut d ps None i False"

section \<open>Cut strings (cubes/query/cells.py)\<close>

text \<open>
  The regular expressions of the module.  \<open>PATH_ELEMENT\<close> is
  \<^verbatim>\<open>(?:\\.|[^:;|-])*\<close>; \<open>PATH_ELEMENT_rests s\<close> lists what is left of \<open>s\<close> after each way
  the expression can match at its start: nothing, or one more round of the group, which
  is a backslash with any character but a newline after it, or one character outside
  \<^verbatim>\<open>:;|-\<close>.
\<close>

definition NEWLINE :: char where
  "NEWLINE = CHR 0x0A"

definition path_element_class :: "char \<Rightarrow> bool" where
  "path_element_class c \<longleftrightarrow>
     c \<noteq> CHR '':'' \<and> c \<noteq> CHR '';'' \<and> c \<noteq> CHR ''|'' \<and> c \<noteq> CHR ''-''"

fun PATH_ELEMENT_rests :: "string \<Rightarrow> string list" where
  "PATH_ELEMENT_rests [] = [[]]"
| "PATH_ELEMENT_rests [c] =
     [c] # (if path_element_class c then PATH_ELEMENT_rests [] else [])"
| "PATH_ELEMENT_rests (c # d # ds) =
     (c # d # ds) #
     ((if c = BACKSLASH \<and> d \<noteq> NEWLINE then PATH_ELEMENT_rests ds else [])
      @ (if path_element_class c then PATH_ELEMENT_rests (d # ds) else []))"

text \<open>\<^verbatim>\<open>$\<close> matches at the end of the string and before a newline that ends it.\<close>

definition re_dollar :: "string \<Rightarrow> bool" where
  "re_dollar r \<longleftrightarrow> r = [] \<or> r = [NEWLINE]"

text \<open>\<open>RE_POINT\<close> is \<^verbatim>\<open>^PATH_ELEMENT$\<close>.\<close>

definition RE_POINT_match :: "string \<Rightarrow> bool" where
  "RE_POINT_match s = list_ex re_dollar (PATH_ELEMENT_rests s)"

lemma PATH_ELEMENT_rests_length:
  "r \<in> set (PATH_ELEMENT_rests s) \<Longrightarrow> length r \<le> length s"
proof (induction s arbitrary: r rule: PATH_ELEMENT_rests.induct)
  case 1
  then show ?case by simp
next
  case (2 c)
  then show ?case by (auto split: if_split_asm)
next
  case (3 c d ds)
  then show ?case by (fastforce split: if_split_asm)
qed

text \<open>
  \<open>RE_SET\<close> is \<^verbatim>\<open>^(PATH_ELEMENT)(;(PATH_ELEMENT))*$\<close>; \<open>RE_SET_tail\<close> is the part after
  the first element.
\<close>

function RE_SET_tail :: "string \<Rightarrow> bool" where
  "RE_SET_tail s =
     (re_dollar s \<or>
      (case s of [] \<Rightarrow> False
       | c # cs \<Rightarrow> c = SET_CUT_SEPARATOR_CHAR \<and> list_ex RE_SET_tail (PATH_ELEMENT_rests cs)))"
  by pat_completeness auto
termination
proof (relation "measure length")
  show "wf (measure length)" by simp
next
  fix s :: string and c cs r
  assume "s = c # cs" and "r \<in> set (PATH_ELEMENT_rests cs)"
  then show "(r, s) \<in> measure length"
    using PATH_ELEMENT_rests_length [of r cs] by simp
qed

definition RE_SET_match :: "string \<Rightarrow> bool" where
  "RE_SET_match s = list_ex RE_SET_tail (PATH_ELEMENT_rests s)"

text \<open>\<open>RE_RANGE\<close> is \<^verbatim>\<open>^(PATH_ELEMENT)?-(PATH_ELEMENT)?$\<close>.\<close>

definition RE_RANGE_match :: "string \<Rightarrow> bool" where
  "RE_RANGE_match s =
     list_ex (\<lambda>r. case r of [] \<Rightarrow> False
                | c # cs \<Rightarrow> c = RANGE_CUT_SEPARATOR_CHAR
                            \<and> list_ex re_dollar (cs # PATH_ELEMENT_rests cs))
       (s # PATH_ELEMENT_rests s)"

text \<open>
  \<^verbatim>\<open>\w\<close> and \<open>str.lower\<close> on ASCII; a character outside ASCII is several \<open>char\<close>s here
  and is neither a word character nor changed by \<open>lower\<close>.
\<close>

definition is_word_char :: "char \<Rightarrow> bool" where
  "is_word_char c \<longleftrightarrow>
     c \<in> set ''abcdefghijklmnopqrstuvwxyzABCDEFGHIJKLMNOPQRSTUVWXYZ0123456789_''"

definition char_lower :: "char \<Rightarrow> char" where
  "char_lower c =
     (case map_of (zip ''ABCDEFGHIJKLMNOPQRSTUVWXYZ'' ''abcdefghijklmnopqrstuvwxyz'') c of
        None \<Rightarrow> c | Some l \<Rightarrow> l)"

text \<open>
  \<open>dim_hier_pattern\<close> is \<^verbatim>\<open>(?P<invert>!)?(?P<dim>\w+)(@(?P<hier>\w+))?\<close>, matched at
  the start of the dimension spec; the result is the groups \<open>invert\<close>, \<open>dim\<close> and \<open>hier\<close>.
\<close>

fun dim_hier_groups :: "bool \<Rightarrow> string \<Rightarrow> (bool \<times> string \<times> string option) option" where
  "dim_hier_groups inverted s =
     (let dim = takeWhile is_word_char s; rest = dropWhile is_word_char s
      in if dim = [] then None
         else Some (inverted, dim,
                (case rest of
                   [] \<Rightarrow> None
                 | c # cs \<Rightarrow>
                     if c = CHR ''@'' \<and> takeWhile is_word_char cs \<noteq> []
                     then Some (takeWhile is_word_char cs) else None)))"

definition dim_hier_pattern_match :: "string \<Rightarrow> (bool \<times> string \<times> string option) option" where
  "dim_hier_pattern_match dimspec =
     (case dimspec of
        [] \<Rightarrow> None
      | c # cs \<Rightarrow>
          if c = CHR ''!''
          then (case dim_hier_groups True cs of
                  Some g \<Rightarrow> Some g
                | None \<Rightarrow> dim_hier_groups False dimspec)
          else dim_hier_groups False dimspec)"

text \<open>
  \<open>cut_from_string\<close>.  Its locals \<open>dimension\<close> and \<open>hierarchy\<close> are annotated at the top
  of the function and assigned only under \<^verbatim>\<open>if cube:\<close>, after \<open>dimension\<close> has been
  read there; \<open>dimension_local\<close> and \<open>hierarchy_local\<close> are \<open>None\<close> while they are unbound.
  A cube is given by the role of the dimension it finds for a name; the dimension and
  the hierarchy it would look up are stood for by their names.  A member converter takes
  the dimension, the hierarchy and a path.
\<close>

type_synonym converter = "string \<Rightarrow> string option \<Rightarrow> hierarchy_path \<Rightarrow> error + hierarchy_path"

definition convert_path ::
  "converter option \<Rightarrow> string option \<Rightarrow> string option option \<Rightarrow> hierarchy_path
     \<Rightarrow> error + hierarchy_path" where
  "convert_path conv dimension_local hierarchy_local p =
     (case conv of
        None \<Rightarrow> Inr p
      | Some f \<Rightarrow>
          bind_err (read_local dimension_local) (\<lambda>d.
          bind_err (read_local hierarchy_local) (\<lambda>h. f d h p)))"

fun convert_paths ::
  "converter option \<Rightarrow> string option \<Rightarrow> string option option \<Rightarrow> hierarchy_path list
     \<Rightarrow> error + hierarchy_path list" where
  "convert_paths conv dimension_local hierarchy_local [] = Inr []"
| "convert_paths conv dimension_local hierarchy_local (p # ps) =
     bind_err (convert_path conv dimension_local hierarchy_local p) (\<lambda>q.
     bind_err (convert_paths conv dimension_local hierarchy_local ps) (\<lambda>qs. Inr (q # qs)))"

definition cut_from_payload ::
  "string \<Rightarrow> converter option \<Rightarrow> string option \<Rightarrow> string option option \<Rightarrow> bool
     \<Rightarrow> error + string cut" where
  "cut_from_payload string conv dimension_local hierarchy_local inverted =
     (if string = [] then
        bind_err (read_local dimension_local) (\<lambda>d.
        bind_err (read_local hierarchy_local) (\<lambda>h. Inr (PointCut d [Some []] h inverted False)))
      else if RE_POINT_match string then
        bind_err (convert_path conv dimension_local hierarchy_local (path_from_string string)) (\<lambda>p.
        bind_err (read_local dimension_local) (\<lambda>d.
        bind_err (read_local hierarchy_local) (\<lambda>h. Inr (PointCut d p h inverted False))))
      else if RE_SET_match string then
        bind_err (convert_paths conv dimension_local hierarchy_local
                    (map path_from_string (re_split SET_CUT_SEPARATOR_CHAR string))) (\<lambda>ps.
        bind_err (read_local dimension_local) (\<lambda>d.
        bind_err (read_local hierarchy_local) (\<lambda>h. Inr (SetCut d ps h inverted False))))
      else if RE_RANGE_match string then
        (case map path_from_string (re_split RANGE_CUT_SEPARATOR_CHAR string) of
           [from_p, to_p] \<Rightarrow>
             bind_err (convert_path conv dimension_local hierarchy_local from_p) (\<lambda>f.
             bind_err (convert_path conv dimension_local hierarchy_local to_p) (\<lambda>t.
             bind_err (read_local dimension_local) (\<lambda>d.
             bind_err (read_local hierarchy_local) (\<lambda>h.
               Inr (RangeCut d (Some f) (Some t) h inverted False)))))
         | _ \<Rightarrow> Inl ValueError)
      else Inl ArgumentError)"

definition cut_from_string ::
  "string \<Rightarrow> (string \<Rightarrow> error + string option) option
     \<Rightarrow> (string \<rightharpoonup> converter) \<Rightarrow> (string \<rightharpoonup> converter) \<Rightarrow> error + string cut" where
  "cut_from_string string cube member_converters role_member_converters =
     (let dimension_local = None; hierarchy_local = None
      in case re_split DIMENSION_STRING_SEPARATOR_CHAR string of
           [dimspec, payload] \<Rightarrow>
             (case dim_hier_pattern_match dimspec of
                None \<Rightarrow> Inl ArgumentError
              | Some (inverted, dim_name, hier_name) \<Rightarrow>
                  bind_err
                    (case cube of
                       None \<Rightarrow> Inr (member_converters dim_name, dimension_local, hierarchy_local)
                     | Some dimension_role \<Rightarrow>
                         bind_err (read_local dimension_local) (\<lambda>d.
                         bind_err (dimension_role d) (\<lambda>role.
                           case role of
                             None \<Rightarrow> Inr (member_converters dim_name, dimension_local, hierarchy_local)
                           | Some r \<Rightarrow>
                               Inr (case member_converters dim_name of
                                      Some f \<Rightarrow> Some f
                                    | None \<Rightarrow> role_member_converters r,
                                    Some dim_name, Some hier_name))))
                    (\<lambda>(conv, dimension_local, hierarchy_local).
                       cut_from_payload payload conv dimension_local hierarchy_local inverted))
         | _ \<Rightarrow> Inl ArgumentError)"

section \<open>Cut dictionaries (cubes/query/cells.py)\<close>

text \<open>
  The values of a cut dictionary.  \<open>cut_from_dict\<close> passes what it finds in the
  dictionary to the constructors unchecked, so the cut it builds holds Python values;
  \<open>hidden\<close> is the one argument it never passes, and the constructors default it to
  \<open>False\<close>.  \<open>desc.get(key)\<close> is \<open>None\<close> for a missing key.
\<close>

datatype pyval = PyNone | PyBool bool | PyInt int | PyStr string | PyList "pyval list"

type_synonym pydict = "string \<rightharpoonup> pyval"

fun truthy :: "pyval \<Rightarrow> bool" where
  "truthy PyNone = False"
| "truthy (PyBool b) = b"
| "truthy (PyInt n) = (n \<noteq> 0)"
| "truthy (PyStr s) = (s \<noteq> [])"
| "truthy (PyList xs) = (xs \<noteq> [])"

definition dict_get :: "pydict \<Rightarrow> string \<Rightarrow> pyval" where
  "dict_get desc key = (case desc key of None \<Rightarrow> PyNone | Some v \<Rightarrow> v)"

definition dict_get_default :: "pydict \<Rightarrow> string \<Rightarrow> pyval \<Rightarrow> pyval" where
  "dict_get_default desc key dflt = (case desc key of None \<Rightarrow> dflt | Some v \<Rightarrow> v)"

datatype cut_object =
    PointCutObject (obj_dimension: pyval) pyval (obj_hierarchy: pyval)
      (obj_invert: pyval) (obj_hidden: bool)
  | RangeCutObject (obj_dimension: pyval) pyval pyval (obj_hierarchy: pyval)
      (obj_invert: pyval) (obj_hidden: bool)
  | SetCutObject (obj_dimension: pyval) pyval (obj_hierarchy: pyval)
      (obj_invert: pyval) (obj_hidden: bool)

definition str_lower :: "pyval \<Rightarrow> error + string" where
  "str_lower v = (case v of PyStr s \<Rightarrow> Inr (map char_lower s) | _ \<Rightarrow> Inl AttributeError)"

definition cut_from_dict ::
  "pydict \<Rightarrow> (pyval \<Rightarrow> error + pyval) option \<Rightarrow> error + cut_object" where
  "cut_from_dict desc cube =
     (case desc ''type'' of
        None \<Rightarrow> Inl KeyError
      | Some t \<Rightarrow>
          bind_err (str_lower t) (\<lambda>cut_type.
          bind_err (case cube of
                      None \<Rightarrow> Inr (dict_get desc ''dimension'')
                    | Some cube_dimension \<Rightarrow>
                        if truthy (dict_get desc ''dimension'')
                        then cube_dimension (dict_get desc ''dimension'')
                        else Inr (dict_get desc ''dimension'')) (\<lambda>dim.
            if cut_type = ''point'' then
              Inr (PointCutObject dim (dict_get desc ''path'') (dict_get desc ''hierarchy'')
                     (dict_get_default desc ''invert'' (PyBool False)) False)
            else if cut_type = ''set'' then
              Inr (SetCutObject dim (dict_get desc ''paths'') (dict_get desc ''hierarchy'')
                     (dict_get_default desc ''invert'' (PyBool False)) False)
            else if cut_type = ''range'' then
              Inr (RangeCutObject dim (dict_get desc ''from'') (dict_get desc ''to'')
                     (dict_get desc ''hierarchy'')
                     (dict_get_default desc ''invert'' (PyBool False)) False)
            else Inl ArgumentError)))"

definition py_path :: "hierarchy_path \<Rightarrow> pyval" where
  "py_path p = PyList (map (\<lambda>e. case e of None \<Rightarrow> PyNone | Some s \<Rightarrow> PyStr s) p)"

definition py_opt_path :: "hierarchy_path option \<Rightarrow> pyval" where
  "py_opt_path p = (case p of None \<Rightarrow> PyNone | Some q \<Rightarrow> py_path q)"

definition py_depth :: "nat option \<Rightarrow> pyval" where
  "py_depth d = (case d of None \<Rightarrow> PyNone | Some n \<Rightarrow> PyInt (int n))"

definition py_hierarchy :: "string option \<Rightarrow> pyval" where
  "py_hierarchy h = (case h of None \<Rightarrow> PyNone | Some s \<Rightarrow> if s \<noteq> [] then PyStr s else PyNone)"

definition Cut_to_dict :: "string cut \<Rightarrow> error + pydict" where
  "Cut_to_dict c =
     bind_err (level_depth c) (\<lambda>depth.
       Inr [''type'' \<mapsto> PyNone,
            ''dimension'' \<mapsto> PyStr (dimension c),
            ''hierarchy'' \<mapsto> py_hierarchy (hierarchy c),
            ''level_depth'' \<mapsto> py_depth depth,
            ''invert'' \<mapsto> PyBool (invert c),
            ''hidden'' \<mapsto> PyBool (hidden c)])"

fun to_dict :: "string cut \<Rightarrow> error + pydict" where
  "to_dict (PointCut d p h i hid) =
     bind_err (Cut_to_dict (PointCut d p h i hid)) (\<lambda>desc.
       Inr (desc(''type'' \<mapsto> PyStr ''point'', ''path'' \<mapsto> py_path p)))"
| "to_dict (RangeCut d f t h i hid) =
     bind_err (Cut_to_dict (RangeCut d f t h i hid)) (\<lambda>desc.
       Inr (desc(''type'' \<mapsto> PyStr ''range'', ''from'' \<mapsto> py_opt_path f,
                 ''to'' \<mapsto> py_opt_path t)))"
| "to_dict (SetCut d ps h i hid) =
     bind_err (Cut_to_dict (SetCut d ps h i hid)) (\<lambda>desc.
       Inr (desc(''type'' \<mapsto> PyStr ''set'', ''paths'' \<mapsto> PyList (map py_path ps))))"

section \<open>SQL browser (cubes/sql/browser.py)\<close>

text \<open>
  An aggregate is known by its name, function and expression.  \<open>aggregate_column\<close>
  raises for an aggregate it cannot compile; the column expression itself belongs to the
  SQL toolkit and is not modelled.  \<open>get_aggregate_function\<close> tells whether the registry
  knows a function name.
\<close>

record aggregate =
  agg_name :: string
  agg_function :: "string option"
  agg_expression :: "string option"

definition str_truthy :: "string option \<Rightarrow> bool" where
  "str_truthy s = (case s of None \<Rightarrow> False | Some t \<Rightarrow> t \<noteq> [])"

definition str_value :: "string option \<Rightarrow> string" where
  "str_value s = (case s of None \<Rightarrow> [] | Some t \<Rightarrow> t)"

definition aggregate_column :: "(string \<Rightarrow> bool) \<Rightarrow> aggregate \<Rightarrow> error + unit" where
  "aggregate_column get_aggregate_function aggregate =
     (if \<not> (str_truthy (agg_expression aggregate) \<or> str_truthy (agg_function aggregate))
        then Inl ModelError
      else if str_truthy (agg_expression aggregate) then Inl NotImplementedError
      else if \<not> get_aggregate_function (map char_lower (str_value (agg_function aggregate)))
        then Inl NotImplementedError
      else Inr ())"

fun aggregate_columns :: "(string \<Rightarrow> bool) \<Rightarrow> aggregate list \<Rightarrow> error + unit" where
  "aggregate_columns get_aggregate_function [] = Inr ()"
| "aggregate_columns get_aggregate_function (aggr # aggrs) =
     bind_err (aggregate_column get_aggregate_function aggr)
       (\<lambda>_. aggregate_columns get_aggregate_function aggrs)"

definition aggregation_statement ::
  "(string \<Rightarrow> bool) \<Rightarrow> aggregate list \<Rightarrow> bool \<Rightarrow> error + unit" where
  "aggregation_statement get_aggregate_function aggregates across =
     (if across then Inl NotImplementedError
      else if aggregates = [] then Inl ArgumentError
      else aggregate_columns get_aggregate_function aggregates)"

text \<open>
  \<open>ResultIterator\<close>.  The cursor is the list of the batches that successive calls of
  \<open>fetchmany\<close> return; an exhausted cursor returns the empty batch.  \<open>iter\<close> runs the
  generator to its end and returns the dictionaries it yields, with the exception that
  ended it, if any.  With \<open>exclude_if_null\<close> set and not empty, the test of a row reads
  \<^verbatim>\<open>self.exclude_if_nul\<close>, an attribute the class does not have.
\<close>

type_synonym 'v row = "'v option list"

record 'v result_iterator =
  result :: "'v row list list"
  batch :: "'v row list option"
  labels :: "string list"
  exclude_if_null :: "string list option"

definition ResultIterator :: "'v row list list \<Rightarrow> string list \<Rightarrow> 'v result_iterator" where
  "ResultIterator cursor ls =
     \<lparr>result = cursor, batch = None, labels = ls, exclude_if_null = None\<rparr>"

definition py_dict :: "('k \<times> 'v) list \<Rightarrow> ('k \<rightharpoonup> 'v)" where
  "py_dict items = map_of (rev items)"

definition names_truthy :: "string list option \<Rightarrow> bool" where
  "names_truthy ns = (case ns of None \<Rightarrow> False | Some xs \<Rightarrow> xs \<noteq> [])"

fun iter_loop ::
  "string list \<Rightarrow> string list option \<Rightarrow> 'v row list \<Rightarrow> 'v row list list
     \<Rightarrow> (string \<rightharpoonup> 'v option) list \<times> error option" where
  "iter_loop ls excl [] [] = ([], None)"
| "iter_loop ls excl [] (many # cursor) =
     (if many = [] then ([], None) else iter_loop ls excl many cursor)"
| "iter_loop ls excl (row # rows) cursor =
     (if names_truthy excl then ([], Some AttributeError)
      else (let (yielded, raised) = iter_loop ls excl rows cursor
            in (py_dict (zip ls row) # yielded, raised)))"

definition iter :: "'v result_iterator \<Rightarrow> (string \<rightharpoonup> 'v option) list \<times> error option" where
  "iter self =
     iter_loop (labels self) (exclude_if_null self)
       (case batch self of None \<Rightarrow> [] | Some b \<Rightarrow> b) (result self)"

text \<open>
  \<open>provide_aggregate\<close>.  The browser's options, what the collaborators return
  (\<open>environment\<close>) and the arguments of the call (\<open>request\<close>, with the drilldown and the
  split as their truth values).  The queries passed to \<open>execute\<close> are logged in order.
  Building a statement can raise; the methods of the drilldown object, pagination and
  ordering belong to other modules and are taken to succeed.  \<open>calculate\<close> is what the
  calculators of the aggregates make of a summary record.
\<close>

record browser =
  include_summary :: bool
  include_cell_count :: bool
  exclude_null_agregates :: bool

record 'v environment =
  get_aggregate_function :: "string \<Rightarrow> bool"
  available_aggregate_functions :: "string list"
  exceeds_cardinality :: bool
  summary_labels :: "string list"
  summary_row :: "'v row option"
  drilldown_labels :: "string list"
  drilldown_cursor :: "'v row list list"
  row_count :: nat
  calculate :: "(string \<rightharpoonup> 'v option) \<Rightarrow> (string \<rightharpoonup> 'v option)"

record request =
  aggregates :: "aggregate list"
  drilldown :: bool
  split :: bool
  page :: "nat option"
  page_size :: "nat option"
  across :: bool

datatype query = SummaryQuery | DrilldownQuery | CountQuery

record 'v aggregation_result =
  summary :: "(string \<rightharpoonup> 'v option) option"
  cells :: "'v result_iterator option"
  total_cell_count :: "nat option"
  result_exclude_if_null :: "string list option"

text \<open>
  Modelled from the spec: \<open>assert_low_cardinality\<close>, inherited from the aggregation
  browser, is not among the source files.  It rejects a drilldown over a dimension
  combination that exceeds the cardinality guard with the unbounded-drilldown error.
\<close>

definition assert_low_cardinality :: "bool \<Rightarrow> error + unit" where
  "assert_low_cardinality exceeds = (if exceeds then Inl UnboundedDrilldown else Inr ())"

definition paginated :: "request \<Rightarrow> bool" where
  "paginated req \<longleftrightarrow>
     (case page_size req of None \<Rightarrow> False | Some n \<Rightarrow> n \<noteq> 0) \<and> page req \<noteq> None"

definition summary_part ::
  "browser \<Rightarrow> 'v environment \<Rightarrow> request \<Rightarrow> query list
     \<Rightarrow> 'v aggregation_result \<Rightarrow> (error + 'v aggregation_result) \<times> query list" where
  "summary_part self env req log res =
     (if include_summary self \<or> \<not> (drilldown req \<or> split req) then
        (case aggregation_statement (get_aggregate_function env) (aggregates req) False of
           Inl e \<Rightarrow> (Inl e, log)
         | Inr _ \<Rightarrow>
             (Inr (res\<lparr>summary := map_option (\<lambda>row. py_dict (zip (summary_labels env) row))
                                   (summary_row env)\<rparr>),
              log @ [SummaryQuery]))
      else (Inr res, log))"

definition drilldown_part ::
  "browser \<Rightarrow> 'v environment \<Rightarrow> request \<Rightarrow> query list
     \<Rightarrow> 'v aggregation_result \<Rightarrow> (error + 'v aggregation_result) \<times> query list" where
  "drilldown_part self env req log res =
     (if drilldown req \<or> split req then
        (case (if \<not> paginated req then assert_low_cardinality (exceeds_cardinality env)
               else Inr ()) of
           Inl e \<Rightarrow> (Inl e, log)
         | Inr _ \<Rightarrow>
             (case aggregation_statement (get_aggregate_function env) (aggregates req) False of
                Inl e \<Rightarrow> (Inl e, log)
              | Inr _ \<Rightarrow>
                  (let res1 = res\<lparr>cells := Some (ResultIterator (drilldown_cursor env)
                                                    (drilldown_labels env))\<rparr>
                   in if include_cell_count self
                      then (Inr (res1\<lparr>total_cell_count := Some (row_count env)\<rparr>),
                            log @ [DrilldownQuery, CountQuery])
                      else (Inr res1, log @ [DrilldownQuery]))))
      else (Inr (res\<lparr>summary := map_option (calculate env) (summary res)\<rparr>), log))"

definition exclude_part ::
  "browser \<Rightarrow> 'v environment \<Rightarrow> request \<Rightarrow> 'v aggregation_result \<Rightarrow> 'v aggregation_result" where
  "exclude_part self env req res =
     (if cells res \<noteq> None \<and> exclude_null_agregates self then
        res\<lparr>result_exclude_if_null :=
              Some (map agg_name
                (filter (\<lambda>agg. \<not> str_truthy (agg_function agg)
                            \<or> str_value (agg_function agg) \<in> set (available_aggregate_functions env))
                   (aggregates req)))\<rparr>
      else res)"

definition provide_aggregate ::
  "browser \<Rightarrow> 'v environment \<Rightarrow> request \<Rightarrow> query list
     \<Rightarrow> (error + 'v aggregation_result) \<times> query list" where
  "provide_aggregate self env req log =
     (if across req then (Inl NotImplementedError, log)
      else
        (case summary_part self env req log
                \<lparr>summary = None, cells = None, total_cell_count = None,
                 result_exclude_if_null = None\<rparr> of
           (Inl e, log1) \<Rightarrow> (Inl e, log1)
         | (Inr res1, log1) \<Rightarrow>
             (case drilldown_part self env req log1 res1 of
                (Inl e, log2) \<Rightarrow> (Inl e, log2)
              | (Inr res2, log2) \<Rightarrow> (Inr (exclude_part self env req res2), log2))))"

text \<open>A cube with one aggregate and one drilldown row whose aggregate is null.\<close>

definition sum_amount :: aggregate where
  "sum_amount = \<lparr>agg_name = ''amount_sum'', agg_function = Some ''sum'', agg_expression = None\<rparr>"

definition sample_env :: "int environment" where
  "sample_env =
     \<lparr>get_aggregate_function = (\<lambda>f. f = ''sum''),
      available_aggregate_functions = [''sum''],
      exceeds_cardinality = True,
      summary_labels = [''amount_sum''],
      summary_row = Some [Some 10],
      drilldown_labels = [''year'', ''amount_sum''],
      drilldown_cursor = [[[Some 2004, None]]],
      row_count = 1,
      calculate = (\<lambda>record. record)\<rparr>"

definition sample_request :: request where
  "sample_request =
     \<lparr>aggregates = [sum_amount], drilldown = True, split = False, page = None,
      page_size = None, across = False\<rparr>"

section \<open>Properties of the path codec\<close>

lemma unescape_escape_sub: "unescape_sub (escape_sub s) = s"
proof (induction s)
  case Nil
  show ?case by simp
next
  case (Cons c cs)
  show ?case
  proof (cases "escape_class c")
    case True
    with Cons show ?thesis by simp
  next
    case False
    then have nb: "c \<noteq> BACKSLASH" by (auto simp: escape_class_def)
    show ?thesis
    proof (cases "escape_sub cs")
      case Nil
      with Cons False show ?thesis by simp
    next
      case (Cons d ds)
      with Cons.IH False nb show ?thesis by simp
    qed
  qed
qed

lemma re_split_escape_sub:
  "escape_class sep \<Longrightarrow> sep \<noteq> BACKSLASH \<Longrightarrow>
   re_split_from sep b (escape_sub s) = [escape_sub s]"
proof (induction s arbitrary: b)
  case Nil
  show ?case by simp
next
  case (Cons c cs)
  show ?case
  proof (cases "escape_class c")
    case True
    then show ?thesis using Cons by (simp add: Let_def)
  next
    case False
    with Cons.prems have "c \<noteq> sep" by auto
    with False Cons show ?thesis by (simp add: Let_def)
  qed
qed

lemma escape_sub_no_class: "\<forall>c \<in> set s. \<not> escape_class c \<Longrightarrow> escape_sub s = s"
  by (induction s) auto

lemma escape_sub_backslash: "\<exists>c \<in> set s. escape_class c \<Longrightarrow> BACKSLASH \<in> set (escape_sub s)"
  by (induction s) auto

lemma escape_sub_eq_Nil [simp]: "escape_sub s = [] \<longleftrightarrow> s = []"
  by (cases s) auto

lemma escape_sub_NULL: "escape_sub s = NULL_PATH_VALUE \<longleftrightarrow> s = NULL_PATH_VALUE"
proof
  assume eq: "escape_sub s = NULL_PATH_VALUE"
  have "BACKSLASH \<notin> set NULL_PATH_VALUE"
    by (simp add: NULL_PATH_VALUE_def BACKSLASH_def)
  with eq escape_sub_backslash [of s] have "\<forall>c \<in> set s. \<not> escape_class c" by auto
  with eq show "s = NULL_PATH_VALUE" by (simp add: escape_sub_no_class)
next
  assume "s = NULL_PATH_VALUE"
  then show "escape_sub s = NULL_PATH_VALUE"
    by (simp add: NULL_PATH_VALUE_def escape_class_def BACKSLASH_def)
qed

lemma re_split_join_step:
  assumes "escape_class sep" "sep \<noteq> BACKSLASH"
    and "s = [] \<longrightarrow> \<not> b" and "s \<noteq> [] \<longrightarrow> last s \<noteq> BACKSLASH"
  shows "re_split_from sep b (escape_sub s @ sep # rest)
           = escape_sub s # re_split_from sep False rest"
  using assms(3,4)
proof (induction s arbitrary: b)
  case Nil
  then show ?case by simp
next
  case (Cons c cs)
  show ?case
  proof (cases "cs = []")
    case True
    with Cons.prems have "c \<noteq> BACKSLASH" by simp
    then show ?thesis using True assms(1,2) by (auto simp: Let_def)
  next
    case False
    with Cons.prems have l: "last cs \<noteq> BACKSLASH" by simp
    have ih: "\<And>b. re_split_from sep b (escape_sub cs @ sep # rest)
                  = escape_sub cs # re_split_from sep False rest"
      using Cons.IH False l by simp
    show ?thesis
    proof (cases "escape_class c")
      case True
      then show ?thesis using ih assms(2) by (simp add: Let_def)
    next
      case False
      with assms(1) have "c \<noteq> sep" by auto
      then show ?thesis using ih False by (simp add: Let_def)
    qed
  qed
qed

text \<open>
  Claim C6, first half as stated, second half as the code has it.  A path element that
  is a non-empty string other than the token \<open>__null__\<close>, so in particular every
  element that contains a reserved character or a backslash, round-trips exactly as a
  one-element path through \<open>string_from_path\<close> and \<open>path_from_string\<close>.  The empty-string
  element has no token of its own: the path holding just the empty string encodes to
  the empty string, as the empty path does, and the empty string decodes to the empty
  path.
\<close>

theorem path_element_roundtrip:
  "(s \<noteq> [] \<and> s \<noteq> NULL_PATH_VALUE \<longrightarrow>
      path_from_string (string_from_path [Some s]) = [Some s])
   \<and> string_from_path [Some []] = []
   \<and> string_from_path [] = []
   \<and> path_from_string [] = []"
proof -
  have sep: "escape_class PATH_STRING_SEPARATOR_CHAR" "PATH_STRING_SEPARATOR_CHAR \<noteq> BACKSLASH"
    by (simp_all add: escape_class_def PATH_STRING_SEPARATOR_CHAR_def BACKSLASH_def)
  have "path_from_string (string_from_path [Some s]) = [Some s]"
    if "s \<noteq> []" "s \<noteq> NULL_PATH_VALUE"
    using that
    by (simp add: string_from_path_def path_from_string_def path_part_escape_def py_str_def
        re_split_def re_split_escape_sub [OF sep] path_part_unescape_def escape_sub_NULL
        unescape_escape_sub)
  then show ?thesis
    by (simp add: string_from_path_def path_from_string_def path_part_escape_def py_str_def)
qed

theorem path_element_roundtrip_witness:
  "path_from_string (string_from_path [Some (''a-b,c:d;e|f!'' @ [BACKSLASH])])
     = [Some (''a-b,c:d;e|f!'' @ [BACKSLASH])]"
  using path_element_roundtrip [of "''a-b,c:d;e|f!'' @ [BACKSLASH]"]
  by (simp add: NULL_PATH_VALUE_def)

theorem empty_element_not_sentinel:
  "string_from_path [Some []] = string_from_path []
   \<and> string_from_path [Some []] \<noteq> NULL_PATH_VALUE
   \<and> path_from_string (string_from_path [Some []]) \<noteq> [Some []]"
  by (simp add: string_from_path_def path_from_string_def path_part_escape_def py_str_def
      NULL_PATH_VALUE_def)

text \<open>
  Beyond one element: a path of strings round-trips when no element is the token
  \<open>__null__\<close>, no element but the last ends in a backslash, and the path is not the single
  empty string.
\<close>

lemma re_split_join_escape:
  assumes "escape_class sep" "sep \<noteq> BACKSLASH"
    and "ss \<noteq> []" and "\<forall>s \<in> set (butlast ss). s = [] \<or> last s \<noteq> BACKSLASH"
  shows "re_split_from sep False (join sep (map escape_sub ss)) = map escape_sub ss"
  using assms(3,4)
proof (induction ss rule: induct_list012)
  case 1
  then show ?case by simp
next
  case (2 s)
  show ?case using re_split_escape_sub [OF assms(1,2)] by simp
next
  case (3 s t ss)
  then have ih: "re_split_from sep False (join sep (map escape_sub (t # ss))) = map escape_sub (t # ss)"
    by simp
  from 3 have s: "s = [] \<or> last s \<noteq> BACKSLASH" by simp
  have "re_split_from sep False (escape_sub s @ sep # join sep (map escape_sub (t # ss)))
          = escape_sub s # re_split_from sep False (join sep (map escape_sub (t # ss)))"
    using s by (intro re_split_join_step [OF assms(1,2)]) auto
  with ih show ?case by simp
qed

lemma join_eq_Nil: "join sep ss = [] \<longleftrightarrow> ss = [] \<or> ss = [[]]"
  by (induction sep ss rule: join.induct) auto

lemma path_roundtrip:
  assumes "\<forall>e \<in> set p. e \<noteq> None \<and> e \<noteq> Some NULL_PATH_VALUE"
    and "\<forall>e \<in> set (butlast p). \<forall>s. e = Some s \<longrightarrow> s = [] \<or> last s \<noteq> BACKSLASH"
    and "p \<noteq> [Some []]"
  shows "path_from_string (string_from_path p) = p"
proof (cases "p = []")
  case True
  then show ?thesis by (simp add: string_from_path_def path_from_string_def)
next
  case False
  define ss where "ss = map py_str p"
  have p: "p = map Some ss"
    unfolding ss_def using assms(1) by (induction p) (auto simp: py_str_def)
  have ne: "ss \<noteq> []" using False by (simp add: ss_def)
  have bl: "\<forall>s \<in> set (butlast ss). s = [] \<or> last s \<noteq> BACKSLASH"
    using assms(2) unfolding p by (auto simp: map_butlast [symmetric])
  have enc: "string_from_path p = join PATH_STRING_SEPARATOR_CHAR (map escape_sub ss)"
    using False by (simp add: string_from_path_def p path_part_escape_def py_str_def comp_def)
  have nn: "join PATH_STRING_SEPARATOR_CHAR (map escape_sub ss) \<noteq> []"
    using ne assms(3) unfolding p by (auto simp: join_eq_Nil map_eq_Cons_conv)
  have sep: "escape_class PATH_STRING_SEPARATOR_CHAR" "PATH_STRING_SEPARATOR_CHAR \<noteq> BACKSLASH"
    by (simp_all add: escape_class_def PATH_STRING_SEPARATOR_CHAR_def BACKSLASH_def)
  have un: "map path_part_unescape (map escape_sub ss) = map Some ss"
    using assms(1) unfolding p
    by (auto simp: path_part_unescape_def escape_sub_NULL unescape_escape_sub)
  show ?thesis
    unfolding enc path_from_string_def re_split_def
    using nn re_split_join_escape [OF sep ne bl] un p by simp
qed

section \<open>Properties of cells\<close>

lemma list_index_None: "list_index xs x = None \<longleftrightarrow> x \<notin> set xs"
  by (induction xs) auto

lemma list_index_Some:
  "list_index xs x = Some i \<longleftrightarrow> i < length xs \<and> xs ! i = x \<and> (\<forall>j < i. xs ! j \<noteq> x)"
proof (induction xs arbitrary: i)
  case Nil
  show ?case by simp
next
  case (Cons y ys)
  show ?case
  proof (cases "y = x")
    case True
    then show ?thesis by (cases i) auto
  next
    case False
    show ?thesis
    proof (cases i)
      case 0
      with False show ?thesis by auto
    next
      case (Suc k)
      have "(\<forall>j < Suc k. (y # ys) ! j \<noteq> x) \<longleftrightarrow> (\<forall>j < k. ys ! j \<noteq> x)"
        using False by (auto simp: less_Suc_eq_0_disj)
      with Suc False Cons.IH [of k] show ?thesis by auto
    qed
  qed
qed

lemma slice_store:
  assumes "self < length st"
  shows "slice st self c =
     ((st @ [case dimension_cut_index (st ! self) (dimension c) of
                Some i \<Rightarrow> (st ! self)[i := c] | None \<Rightarrow> st ! self @ [c]]) @ [case dimension_cut_index (st ! self) (dimension c) of
                Some i \<Rightarrow> (st ! self)[i := c] | None \<Rightarrow> st ! self @ [c]],
      Suc (length st))"
proof (cases "dimension_cut_index (st ! self) (dimension c)")
  case None
  with assms show ?thesis
    by (simp add: slice_def new_list_def Cell_init_def Let_def nth_append)
next
  case (Some i)
  with assms show ?thesis
    by (simp add: slice_def new_list_def Cell_init_def Let_def nth_append)
qed

text \<open>
  Claim C8.  \<open>Cell.slice\<close> returns a new cell, a list object that did not exist before.
  Where the receiver has a cut of the new cut's dimension, the new cell's list is the
  receiver's list with the first such cut replaced by the new cut; where it has none,
  it is the receiver's list with the new cut appended.  All other cuts keep their
  places, and no list that existed before the call, the receiver's among them, is
  changed.
\<close>

theorem slice_replaces_first_or_appends:
  assumes "self < length st" and "slice st self c = (st', r)"
  shows "(\<forall>a < length st. st' ! a = st ! a)
       \<and> length st \<le> r \<and> r < length st'
       \<and> (\<forall>i < length (st ! self).
            dimension (st ! self ! i) = dimension c
            \<and> (\<forall>j < i. dimension (st ! self ! j) \<noteq> dimension c)
            \<longrightarrow> st' ! r = (st ! self)[i := c])
       \<and> ((\<forall>e \<in> set (st ! self). dimension e \<noteq> dimension c)
            \<longrightarrow> st' ! r = st ! self @ [c])"
proof -
  let ?cs = "st ! self"
  let ?new = "case dimension_cut_index ?cs (dimension c) of
                Some i \<Rightarrow> ?cs[i := c] | None \<Rightarrow> ?cs @ [c]"
  from assms slice_store [OF assms(1), of c]
  have st': "st' = (st @ [?new]) @ [?new]" and r: "r = Suc (length st)" by simp_all
  have old: "\<forall>a < length st. st' ! a = st ! a"
    by (simp add: st' nth_append)
  have new: "st' ! r = ?new"
    by (simp add: st' r nth_append)
  have rep: "st' ! r = ?cs[i := c]"
    if "i < length ?cs" "dimension (?cs ! i) = dimension c"
       "\<forall>j < i. dimension (?cs ! j) \<noteq> dimension c" for i
  proof -
    have "list_index (map dimension ?cs) (dimension c) = Some i"
      using that by (simp add: list_index_Some)
    then show ?thesis by (simp add: new dimension_cut_index_def)
  qed
  have app: "st' ! r = ?cs @ [c]" if "\<forall>e \<in> set ?cs. dimension e \<noteq> dimension c"
  proof -
    have "list_index (map dimension ?cs) (dimension c) = None"
      using that by (auto simp: list_index_None)
    then show ?thesis by (simp add: new dimension_cut_index_def)
  qed
  from old rep app show ?thesis by (simp add: st' r)
qed

theorem slice_witness:
  "slice [[PointCut ''d'' [Some ''1''] None False False]] 0
         (PointCut ''d'' [Some ''2''] None False False)
     = ([[PointCut ''d'' [Some ''1''] None False False],
         [PointCut ''d'' [Some ''2''] None False False],
         [PointCut ''d'' [Some ''2''] None False False]], 2)
   \<and> [[PointCut ''d'' [Some ''1''] None False False],
         [PointCut ''d'' [Some ''2''] None False False],
         [PointCut ''d'' [Some ''2''] None False False]] ! 2
       = [PointCut ''d'' [Some ''1''] None False False][0 := PointCut ''d'' [Some ''2''] None False False]"
proof -
  have e: "slice [[PointCut ''d'' [Some ''1''] None False False]] 0
         (PointCut ''d'' [Some ''2''] None False False)
     = ([[PointCut ''d'' [Some ''1''] None False False],
         [PointCut ''d'' [Some ''2''] None False False],
         [PointCut ''d'' [Some ''2''] None False False]], 2)"
    by (simp add: slice_def new_list_def Cell_init_def Let_def dimension_cut_index_def)
  have l: "(0::nat) < length [[PointCut ''d'' [Some ''1''] None False False]]" by simp
  from slice_replaces_first_or_appends [OF l e] e show ?thesis by simp
qed

lemma cut_eq_refl: "cut_eq c c"
  by (cases c) auto

lemma cut_eq_sym: "cut_eq a b \<longleftrightarrow> cut_eq b a"
  by (cases a; cases b) auto

lemma cut_in_self: "c \<in> set cs \<Longrightarrow> cut_in c cs"
  by (auto simp: cut_in_def list_ex_iff intro: cut_eq_refl)

lemma cell_eq_refl: "cell_eq self self"
  by (simp add: cell_eq_def list_all_iff cut_in_self)

lemma point_cut_from_None:
  "point_cut_from n cs dim = None \<longleftrightarrow> (\<forall>c \<in> set cs. isinstance_PointCut c \<longrightarrow> dimension c \<noteq> dim)"
  by (induction cs arbitrary: n) auto

text \<open>
  Claim C9.  On a cell without a point cut for the dimension, \<open>rollup_dim\<close> raises
  nothing and returns a cell with the cuts of the receiver, equal to it by
  \<open>Cell.__eq__\<close>, whatever range and set cuts the cell holds for that dimension.
\<close>

theorem rollup_dim_without_point_cut:
  assumes "\<forall>c \<in> set self. isinstance_PointCut c \<longrightarrow> dimension c \<noteq> dim"
  shows "rollup_dim dim_hierarchy hier_rollup self dim level hier_name = Inr self
       \<and> cell_eq self self"
proof -
  from assms have "point_cut_from 0 self dim = None"
    by (simp add: point_cut_from_None)
  then show ?thesis
    by (simp add: rollup_dim_def point_cut_for_dimension_def cell_eq_refl)
qed

theorem rollup_dim_without_point_cut_witness:
  "rollup_dim (\<lambda>d h. Inr d) (\<lambda>h p l. Inr (butlast p))
      [RangeCut ''date'' (Some [Some ''2004'']) None None False False,
       SetCut ''date'' [[Some ''2010'']] None False False,
       PointCut ''geo'' [Some ''sk''] None False False] ''date'' (None :: string option) None
    = Inr [RangeCut ''date'' (Some [Some ''2004'']) None None False False,
       SetCut ''date'' [[Some ''2010'']] None False False,
       PointCut ''geo'' [Some ''sk''] None False False]"
  using rollup_dim_without_point_cut [of
      "[RangeCut ''date'' (Some [Some ''2004'']) None None False False,
       SetCut ''date'' [[Some ''2010'']] None False False,
       PointCut ''geo'' [Some ''sk''] None False False]" "''date''"
      "\<lambda>d h. Inr d" "\<lambda>h p l. Inr (butlast p)" "None :: string option" None]
  by simp

text \<open>
  Claim C5 at a cell with a repeated cut.  With the cuts \<open>x = d:1\<close> and \<open>y = d:2\<close>, the cell
  \<open>[x, x]\<close> equals the cell \<open>[x, y]\<close>, but \<open>[x, y]\<close> does not equal \<open>[x, x]\<close>, and the two
  have different sets of cuts; \<open>[x]\<close> and \<open>[x, x]\<close> have the same set of cuts and are not
  equal.
\<close>

theorem cell_eq_duplicates:
  "cell_eq [PointCut ''d'' [Some ''1''] None False False, PointCut ''d'' [Some ''1''] None False False]
           [PointCut ''d'' [Some ''1''] None False False, PointCut ''d'' [Some ''2''] None False False]
   \<and> \<not> cell_eq [PointCut ''d'' [Some ''1''] None False False, PointCut ''d'' [Some ''2''] None False False]
           [PointCut ''d'' [Some ''1''] None False False, PointCut ''d'' [Some ''1''] None False False]
   \<and> set [PointCut ''d'' [Some ''1''] None False False, PointCut ''d'' [Some ''1''] None False False]
       \<noteq> set [PointCut ''d'' [Some ''1''] None False False, PointCut ''d'' [Some ''2''] None False False]
   \<and> \<not> cell_eq [PointCut ''d'' [Some ''1''] None False False]
        [PointCut ''d'' [Some ''1''] None False False, PointCut ''d'' [Some ''1''] None False False]"
  by (simp add: cell_eq_def cut_in_def)

lemma cell_eq_swap: "cell_eq [x, y] [y, x]"
  by (simp add: cell_eq_def cut_in_def cut_eq_refl)

text \<open>
  On cells that hold no two equal cuts, \<open>Cell.__eq__\<close> is equality of the sets of cuts.
\<close>

lemma cut_eq_key: "cut_eq a b \<longleftrightarrow> cut_key a = cut_key b"
  by (cases a; cases b) auto

lemma cell_eq_keys:
  "cell_eq a b \<longleftrightarrow> length a = length b \<and> cut_key ` set a \<subseteq> cut_key ` set b"
proof -
  have "(\<forall>c \<in> set a. \<exists>e \<in> set b. cut_key e = cut_key c)
          \<longleftrightarrow> cut_key ` set a \<subseteq> cut_key ` set b"
  proof
    assume h: "\<forall>c \<in> set a. \<exists>e \<in> set b. cut_key e = cut_key c"
    show "cut_key ` set a \<subseteq> cut_key ` set b"
    proof
      fix x
      assume "x \<in> cut_key ` set a"
      then obtain c where c: "c \<in> set a" "x = cut_key c" by auto
      with h obtain e where e: "e \<in> set b" "cut_key e = cut_key c" by auto
      from c e have "x = cut_key e" by simp
      then show "x \<in> cut_key ` set b" using e(1) by (rule image_eqI)
    qed
  next
    assume s: "cut_key ` set a \<subseteq> cut_key ` set b"
    show "\<forall>c \<in> set a. \<exists>e \<in> set b. cut_key e = cut_key c"
    proof
      fix c
      assume "c \<in> set a"
      with s have "cut_key c \<in> cut_key ` set b" by auto
      then show "\<exists>e \<in> set b. cut_key e = cut_key c" by auto
    qed
  qed
  then show ?thesis
    by (simp add: cell_eq_def cut_in_def list_all_iff list_ex_iff cut_eq_key)
qed

lemma cell_eq_no_repeats:
  assumes "distinct (map cut_key a)" and "distinct (map cut_key b)"
  shows "cell_eq a b \<longleftrightarrow> cut_key ` set a = cut_key ` set b"
proof -
  have ca: "card (cut_key ` set a) = length a"
    using assms(1) distinct_card [of "map cut_key a"] by simp
  have cb: "card (cut_key ` set b) = length b"
    using assms(2) distinct_card [of "map cut_key b"] by simp
  show ?thesis
  proof
    assume "cell_eq a b"
    then have l: "length a = length b" and s: "cut_key ` set a \<subseteq> cut_key ` set b"
      by (simp_all add: cell_eq_keys)
    from l ca cb have "card (cut_key ` set a) = card (cut_key ` set b)" by simp
    with s show "cut_key ` set a = cut_key ` set b"
      by (simp add: card_subset_eq)
  next
    assume e: "cut_key ` set a = cut_key ` set b"
    with ca cb have "length a = length b" by simp
    with e show "cell_eq a b" by (simp add: cell_eq_keys)
  qed
qed

text \<open>
  Claim C7 at a cut with an empty path and \<open>include_empty\<close> false.  As the first cut of
  the cell it makes \<open>deepest_levels\<close> raise \<open>UnboundLocalError\<close>; after another cut it adds
  that cut's triple a second time instead of being left out.
\<close>

theorem deepest_levels_empty_path:
  "deepest_levels (\<lambda>d h. Inr d) (\<lambda>h. [''year'', ''month''])
      [PointCut ''date'' [] None False False] False = Inl UnboundLocalError
   \<and> deepest_levels (\<lambda>d h. Inr d) (\<lambda>h. [''year'', ''month''])
      [PointCut ''date'' [Some ''2004''] None False False,
       PointCut ''geo'' [] None False False] False
     = Inr [(''date'', ''date'', Some ''year''), (''date'', ''date'', Some ''year'')]"
  by (simp add: deepest_levels_def bind_err_def read_local_def truthy_depth_def
      depth_value_def list_get_def)

text \<open>
  Where every cut has a level depth within its hierarchy, or an empty path with
  \<open>include_empty\<close> true, \<open>deepest_levels\<close> returns one triple per cut, in order.
\<close>

lemma deepest_levels_loop_total:
  assumes "\<forall>c \<in> set cs. level_depth c = Inr (dp c) \<and> dim_hierarchy (dimension c) (hierarchy c) = Inr (h c)
             \<and> (truthy_depth (dp c) \<longrightarrow> depth_value (dp c) \<le> length (hier_levels (h c)))
             \<and> (\<not> truthy_depth (dp c) \<longrightarrow> include_empty)"
  shows "deepest_levels_loop dim_hierarchy hier_levels include_empty item levels cs
           = Inr (levels @ map (\<lambda>c. (dimension c, h c,
                     if truthy_depth (dp c)
                     then Some (hier_levels (h c) ! (depth_value (dp c) - 1)) else None)) cs)"
  using assms
proof (induction cs arbitrary: item levels)
  case Nil
  show ?case by simp
next
  case (Cons c cs)
  then show ?case
    by (cases "dp c") (auto simp: bind_err_def read_local_def list_get_def truthy_depth_def depth_value_def)
qed

text \<open>
  Claim C2 at a point cut.  \<open>rollup\<close> with a list that names the dimension of a point
  cut raises \<open>NotImplementedError\<close>, and with a mapping it raises \<open>ArgumentError\<close> whatever
  the cell holds.
\<close>

theorem rollup_point_cut:
  "rollup dim_hierarchy hier_rollup hier_level
      [PointCut ''date'' [Some ''2004'', Some ''1''] None False False] (RollupList [''date''])
     = Inl NotImplementedError
   \<and> rollup dim_hierarchy hier_rollup hier_level
      [PointCut ''date'' [Some ''2004'', Some ''1''] None False False] (RollupDict [(''date'', ''year'')])
     = Inl ArgumentError"
  by (simp add: rollup_def cuts_get_def self_drilldown_is_dict_def)

lemma rollup_list_point_cut:
  "cuts_get self n = Some c \<Longrightarrow> isinstance_PointCut c \<Longrightarrow>
   rollup_list dim_hierarchy hier_rollup self (n # rest) new_cuts = Inl NotImplementedError"
  by simp

lemma rollup_list_absent:
  "\<forall>n \<in> set names. \<forall>c \<in> set self. dimension c \<noteq> n \<Longrightarrow>
   rollup_list dim_hierarchy hier_rollup self names new_cuts = Inr new_cuts"
proof (induction names)
  case Nil
  show ?case by simp
next
  case (Cons n ns)
  then have "cuts_get self n = None"
    by (auto simp: cuts_get_def find_None_iff)
  with Cons show ?case by simp
qed

lemma rollup_list_present:
  assumes "cuts_get self n = Some c"
  shows "\<exists>e. rollup_list dim_hierarchy hier_rollup self (n # rest) new_cuts = Inl e"
proof (cases c)
  case (PointCut d p h i hid)
  with assms show ?thesis by simp
next
  case (RangeCut d f t h i hid)
  with assms show ?thesis by (auto simp: bind_err_def split: sum.splits)
next
  case (SetCut d ps h i hid)
  with assms show ?thesis by (auto simp: bind_err_def split: sum.splits)
qed

lemma rollup_dict_always_fails:
  "rollup dim_hierarchy hier_rollup hier_level self (RollupDict items) = Inl ArgumentError"
  by (simp add: rollup_def self_drilldown_is_dict_def)

section \<open>Properties of cut strings\<close>

lemma cut_from_payload_unbound:
  "cut_from_payload string conv None hierarchy_local inverted \<noteq> Inr c"
  unfolding cut_from_payload_def
  by (auto simp: bind_err_def read_local_def split: sum.splits list.splits)

lemma cut_from_string_never_returns:
  "cut_from_string string cube member_converters role_member_converters \<noteq> Inr c"
  unfolding cut_from_string_def Let_def
  by (auto simp: bind_err_def read_local_def cut_from_payload_unbound
      split: list.splits option.splits sum.splits)

text \<open>
  Claim C1 at the point cut \<open>date:2004\<close>.  Its string form is \<open>date:2004\<close>, and decoding
  that string raises \<open>UnboundLocalError\<close>; by \<open>cut_from_string_never_returns\<close> no string
  decodes to a cut.
\<close>

theorem cut_from_string_raises:
  "cut_str (PointCut ''date'' [Some ''2004''] None False False) = ''date:2004''
   \<and> cut_from_string (cut_str (PointCut ''date'' [Some ''2004''] None False False))
         None Map.empty Map.empty = Inl UnboundLocalError"
  by (simp add: cut_from_string_def cut_from_payload_def re_split_def dim_hier_pattern_match_def
      is_word_char_def bind_err_def read_local_def RE_POINT_match_def re_dollar_def
      path_element_class_def BACKSLASH_def NEWLINE_def DIMENSION_STRING_SEPARATOR_CHAR_def
      Let_def convert_path_def invert_prefix_def string_from_hierarchy_def path_part_escape_def
      string_from_path_def py_str_def escape_class_def)

section \<open>Properties of cut dictionaries\<close>

lemma cut_from_dict_hidden_aux:
  "cut_from_dict desc cube = Inr c \<Longrightarrow> \<not> obj_hidden c"
  unfolding cut_from_dict_def
  by (auto simp: bind_err_def split: option.splits sum.splits if_split_asm)

lemma cut_from_dict_frame:
  assumes "\<forall>k \<in> set [''type'', ''dimension'', ''path'', ''paths'', ''from'', ''to'',
                         ''hierarchy'', ''invert'']. desc k = desc' k"
  shows "cut_from_dict desc cube = cut_from_dict desc' cube"
proof -
  from assms have e:
    "desc ''type'' = desc' ''type''" "desc ''dimension'' = desc' ''dimension''"
    "desc ''path'' = desc' ''path''" "desc ''paths'' = desc' ''paths''"
    "desc ''from'' = desc' ''from''" "desc ''to'' = desc' ''to''"
    "desc ''hierarchy'' = desc' ''hierarchy''" "desc ''invert'' = desc' ''invert''"
    by simp_all
  show ?thesis
    unfolding cut_from_dict_def dict_get_def dict_get_default_def e by (rule refl)
qed

lemma to_dict_type:
  "to_dict k = Inr d \<Longrightarrow> \<exists>c. cut_from_dict d None = Inr c \<and> d ''hidden'' = Some (PyBool (hidden k))"
  by (cases k)
    (auto simp: Cut_to_dict_def cut_from_dict_def bind_err_def str_lower_def char_lower_def
       split: sum.splits)

text \<open>
  Claim C10.  A cut returned by \<open>cut_from_dict\<close> has \<open>hidden\<close> false, for every
  dictionary and with or without a cube.  In particular the dictionary that \<open>to_dict\<close>
  makes of a cut carries the cut's \<open>hidden\<close> flag, and the cut read back from it has
  \<open>hidden\<close> false all the same.  The key \<open>hidden\<close> is not read: changing or removing it
  does not change the result.
\<close>

theorem cut_from_dict_never_hidden:
  "(cut_from_dict desc cube = Inr c \<longrightarrow> \<not> obj_hidden c)
   \<and> (to_dict k = Inr d \<longrightarrow>
        d ''hidden'' = Some (PyBool (hidden k))
        \<and> (\<exists>c'. cut_from_dict d None = Inr c' \<and> \<not> obj_hidden c'))
   \<and> cut_from_dict (desc(''hidden'' := v)) cube = cut_from_dict desc cube"
proof -
  have "cut_from_dict (desc(''hidden'' := v)) cube = cut_from_dict desc cube"
    by (rule cut_from_dict_frame) simp
  then show ?thesis
    using cut_from_dict_hidden_aux to_dict_type by blast
qed

theorem cut_from_dict_never_hidden_witness:
  "to_dict (PointCut ''date'' [Some ''2004''] None False True)
     = Inr [''type'' \<mapsto> PyStr ''point'', ''dimension'' \<mapsto> PyStr ''date'',
            ''hierarchy'' \<mapsto> PyNone, ''level_depth'' \<mapsto> PyInt 1, ''invert'' \<mapsto> PyBool False,
            ''hidden'' \<mapsto> PyBool True, ''path'' \<mapsto> PyList [PyStr ''2004'']]
   \<and> cut_from_dict [''type'' \<mapsto> PyStr ''point'', ''dimension'' \<mapsto> PyStr ''date'',
            ''hierarchy'' \<mapsto> PyNone, ''level_depth'' \<mapsto> PyInt 1, ''invert'' \<mapsto> PyBool False,
            ''hidden'' \<mapsto> PyBool True, ''path'' \<mapsto> PyList [PyStr ''2004'']] None
     = Inr (PointCutObject (PyStr ''date'') (PyList [PyStr ''2004'']) PyNone (PyBool False) False)
   \<and> \<not> obj_hidden (PointCutObject (PyStr ''date'') (PyList [PyStr ''2004'']) PyNone (PyBool False) False)"
proof -
  let ?d = "[''type'' \<mapsto> PyStr ''point'', ''dimension'' \<mapsto> PyStr ''date'',
            ''hierarchy'' \<mapsto> PyNone, ''level_depth'' \<mapsto> PyInt 1, ''invert'' \<mapsto> PyBool False,
            ''hidden'' \<mapsto> PyBool True, ''path'' \<mapsto> PyList [PyStr ''2004'']]"
  have t: "to_dict (PointCut ''date'' [Some ''2004''] None False True) = Inr ?d"
    by (auto simp: Cut_to_dict_def bind_err_def py_hierarchy_def py_depth_def py_path_def)
  have f: "cut_from_dict ?d None
     = Inr (PointCutObject (PyStr ''date'') (PyList [PyStr ''2004'']) PyNone (PyBool False) False)"
    by (simp add: cut_from_dict_def bind_err_def str_lower_def char_lower_def dict_get_def
        dict_get_default_def)
  from cut_from_dict_never_hidden [of ?d None
      "PointCutObject (PyStr ''date'') (PyList [PyStr ''2004'']) PyNone (PyBool False) False"
      "PointCut ''date'' [Some ''2004''] None False True" ?d] t f
  show ?thesis by simp
qed

section \<open>Properties of the SQL browser\<close>

text \<open>
  Claim C3, as the code has it.  Take a call without drill-across, with a drilldown or
  a split, without explicit pagination, whose drilldown exceeds the cardinality guard.
  With \<open>include_summary\<close> off, the call fails with the unbounded-drilldown error and
  executes no query.  With \<open>include_summary\<close> on, the summary statement is built first:
  if that raises, the call fails with that error and executes no query; otherwise the
  summary query is executed and then the call fails with the unbounded-drilldown error.
  The drilldown query and the count query never run.
\<close>

theorem unbounded_drilldown_rejected:
  assumes "drilldown req \<or> split req" and "\<not> paginated req"
    and "exceeds_cardinality env" and "\<not> across req"
  shows "provide_aggregate self env req log =
           (if include_summary self
            then (case aggregation_statement (get_aggregate_function env) (aggregates req) False of
                    Inl e \<Rightarrow> (Inl e, log)
                  | Inr _ \<Rightarrow> (Inl UnboundedDrilldown, log @ [SummaryQuery]))
            else (Inl UnboundedDrilldown, log))"
  using assms
  by (simp add: provide_aggregate_def summary_part_def drilldown_part_def
      assert_low_cardinality_def split: sum.splits)

theorem unbounded_drilldown_rejected_witness:
  "provide_aggregate
     \<lparr>include_summary = False, include_cell_count = True, exclude_null_agregates = True\<rparr>
     sample_env sample_request [] = (Inl UnboundedDrilldown, [])"
  using unbounded_drilldown_rejected [of sample_request sample_env
      "\<lparr>include_summary = False, include_cell_count = True, exclude_null_agregates = True\<rparr>" "[]"]
  by (simp add: sample_env_def sample_request_def paginated_def)

theorem summary_query_runs_before_guard:
  "provide_aggregate
     \<lparr>include_summary = True, include_cell_count = True, exclude_null_agregates = True\<rparr>
     sample_env sample_request [] = (Inl UnboundedDrilldown, [SummaryQuery])"
  by (simp add: provide_aggregate_def summary_part_def drilldown_part_def
      assert_low_cardinality_def sample_env_def sample_request_def paginated_def
      aggregation_statement_def aggregate_column_def sum_amount_def str_truthy_def
      str_value_def char_lower_def bind_err_def)

text \<open>
  Claim C4 at a drilldown row with a null aggregate.  An iterator whose \<open>exclude_if_null\<close>
  names the aggregate raises \<open>AttributeError\<close> at the first row and yields nothing.
  \<open>provide_aggregate\<close> with null-exclusion on stores the names in the result and leaves
  the iterator's own \<open>exclude_if_null\<close> at \<open>None\<close>, and that iterator yields the row with
  the null aggregate.
\<close>

theorem null_rows_not_dropped:
  "iter \<lparr>result = [[[Some 2004, None]]], batch = None, labels = [''year'', ''amount_sum''],
         exclude_if_null = Some [''amount_sum'']\<rparr>
     = (([] :: (string \<rightharpoonup> int option) list), Some AttributeError)
   \<and> (case provide_aggregate
          \<lparr>include_summary = True, include_cell_count = True, exclude_null_agregates = True\<rparr>
          (sample_env\<lparr>exceeds_cardinality := False\<rparr>) sample_request [] of
        (Inr res, log) \<Rightarrow>
          result_exclude_if_null res = Some [''amount_sum'']
          \<and> map_option exclude_if_null (cells res) = Some None
          \<and> map_option (\<lambda>it. map (\<lambda>d. d ''amount_sum'') (fst (iter it))) (cells res)
               = Some [Some None]
      | (Inl e, log) \<Rightarrow> False)"
  by (simp add: provide_aggregate_def summary_part_def drilldown_part_def exclude_part_def
      assert_low_cardinality_def sample_env_def sample_request_def paginated_def
      aggregation_statement_def aggregate_column_def sum_amount_def str_truthy_def
      str_value_def char_lower_def bind_err_def iter_def names_truthy_def ResultIterator_def
      py_dict_def)

lemma iter_loop_exclusion_raises:
  "names_truthy excl \<Longrightarrow> iter_loop ls excl (row # rows) cursor = ([], Some AttributeError)"
  by simp

lemma iter_without_exclusion:
  "\<not> names_truthy excl \<Longrightarrow> [] \<notin> set cursor \<Longrightarrow>
   iter_loop ls excl rows cursor = (map (\<lambda>row. py_dict (zip ls row)) (rows @ concat cursor), None)"
proof (induction ls excl rows cursor rule: iter_loop.induct)
  case (1 ls excl)
  show ?case by simp
next
  case (2 ls excl many cursor)
  then show ?case by auto
next
  case (3 ls excl row rows cursor)
  then show ?case by simp
qed

end
